theory Spec2Isabelle
  imports Main
begin

section \<open>Data of the language server\<close>

text \<open>
  The server (src/unnamed/part_000) keeps two module-level variables, \<open>completionItems\<close>
  and \<open>compItemMap\<close>, and rebuilds both in \<open>validateTextDocument\<close>. The Vue parser and
  the stylesheet services are libraries outside the repository: they are parameters of the
  model (the record \<open>services\<close>), and each may throw, so each returns \<open>error + 'a\<close>.
\<close>

datatype error = Thrown string

text \<open>
  \<open>SymbolKind\<close> and \<open>CompletionItemKind\<close> are numeric enumerations of the protocol
  library; the two members the server names are \<open>SymbolKind.Class = 5\<close> and
  \<open>CompletionItemKind.Property = 10\<close>.
\<close>

type_synonym SymbolKind = nat
type_synonym CompletionItemKind = nat

definition SymbolKind_Class :: SymbolKind where
  "SymbolKind_Class = 5"

definition CompletionItemKind_Property :: CompletionItemKind where
  "CompletionItemKind_Property = 10"

record CompletionItem =
  label :: string
  itemKind :: CompletionItemKind

record SymbolInformation =
  name :: string
  kind :: SymbolKind

text \<open>
  \<open>SFCBlock.module\<close> is \<open>string | boolean\<close> and optional, \<open>SFCBlock.lang\<close> is an
  optional string; the server reads both through JavaScript truthiness.
\<close>

datatype module_attr = NoModule | ModuleFlag bool | ModuleName string

record SFCBlock =
  content :: string
  lang :: "string option"
  module :: module_attr

text \<open>
  The library declares the descriptor's \<open>styles\<close> as an array of blocks
  (\<open>styles: SFCBlock[]\<close>), empty for a component without style blocks.
\<close>

record SFCDescriptor =
  styles :: "SFCBlock list"

record TextDocument =
  uri :: string
  languageId :: string
  version :: nat
  getText :: string

datatype LanguageService = CSSLanguageService | SCSSLanguageService | LESSLanguageService

record 'ss services =
  parse :: "string \<Rightarrow> string \<Rightarrow> error + SFCDescriptor"
  parseStylesheet :: "LanguageService \<Rightarrow> TextDocument \<Rightarrow> error + 'ss"
  findDocumentSymbols :: "LanguageService \<Rightarrow> TextDocument \<Rightarrow> 'ss \<Rightarrow> error + SymbolInformation list"

record Settings =
  maxNumberOfProblems :: nat

record server_state =
  completionItems :: "CompletionItem list"
  compItemMap :: "(string \<times> CompletionItem) list"
  globalSettings :: Settings

section \<open>The JavaScript \<open>Map\<close>, in insertion order\<close>

text \<open>
  A \<open>Map\<close> iterates in insertion order and \<open>set\<close> on a present key keeps the key's
  place: an association list, new keys appended.
\<close>

definition map_get :: "(string \<times> 'v) list \<Rightarrow> string \<Rightarrow> 'v option" where
  "map_get m k = map_of m k"

primrec map_set :: "(string \<times> 'v) list \<Rightarrow> string \<Rightarrow> 'v \<Rightarrow> (string \<times> 'v) list" where
  "map_set [] k v = [(k, v)]"
| "map_set (p # ps) k v = (if fst p = k then (k, v) # ps else p # map_set ps k v)"

definition map_values :: "(string \<times> 'v) list \<Rightarrow> 'v list" where
  "map_values m = map snd m"

section \<open>The parser wrapper (src/server/src/parser/vue.ts)\<close>

text \<open>The constructor calls the library's \<open>parse\<close> and keeps the descriptor.\<close>

definition VueParser :: "'ss services \<Rightarrow> string \<Rightarrow> string \<Rightarrow> error + SFCDescriptor" where
  "VueParser env source filename = parse env source filename"

text \<open>
  \<open>return this.descriptor.styles || null\<close>, of type \<open>SFCBlock[] | null\<close>. An array
  is truthy in JavaScript, the empty array too, so the left operand is the result for every
  descriptor; \<open>None\<close> stands for \<open>null\<close> in the result type.
\<close>

definition getStyles :: "SFCDescriptor \<Rightarrow> SFCBlock list option" where
  "getStyles descriptor = Some (styles descriptor)"

section \<open>The server (src/unnamed/part_000)\<close>

definition getLanguageService :: "string \<Rightarrow> LanguageService" where
  "getLanguageService fileExtension =
     (if fileExtension = ''.less'' then LESSLanguageService
      else if fileExtension = ''.scss'' then SCSSLanguageService
      else CSSLanguageService)"

definition defaultSettings :: Settings where
  "defaultSettings = \<lparr>maxNumberOfProblems = 1000\<rparr>"

text \<open>The default that src/package.json declares for the same setting.\<close>

definition manifest_maxNumberOfProblems :: nat where
  "manifest_maxNumberOfProblems = 100"

definition initial_state :: server_state where
  "initial_state = \<lparr>completionItems = [], compItemMap = [], globalSettings = defaultSettings\<rparr>"

text \<open>\<open>String.prototype.split\<close> with a one-character separator.\<close>

fun split_on :: "char \<Rightarrow> string \<Rightarrow> string list" where
  "split_on c [] = [[]]"
| "split_on c (x # xs) =
     (if x = c then [] # split_on c xs
      else (case split_on c xs of [] \<Rightarrow> [[x]] | w # ws \<Rightarrow> (x # w) # ws))"

text \<open>\<open>textDocument.uri.split('/').pop() || ''\<close>\<close>

definition filename_of :: "string \<Rightarrow> string" where
  "filename_of u = (case rev (split_on CHR ''/'' u) of [] \<Rightarrow> [] | seg # _ \<Rightarrow> seg)"

text \<open>\<open>!!style.module\<close>\<close>

definition isModule :: "SFCBlock \<Rightarrow> bool" where
  "isModule style =
     (case module style of NoModule \<Rightarrow> False | ModuleFlag b \<Rightarrow> b | ModuleName s \<Rightarrow> s \<noteq> [])"

text \<open>\<open>style.lang || 'css'\<close>\<close>

definition lang_of :: "SFCBlock \<Rightarrow> string" where
  "lang_of style = (case lang style of None \<Rightarrow> ''css'' | Some l \<Rightarrow> (if l = [] then ''css'' else l))"

text \<open>
  Lines 161 to 166: the service for the block's language, a document made of the block's
  content, the stylesheet, its symbols. A throw of either service call ends the rebuild.
\<close>

definition documentSymbols_of :: "'ss services \<Rightarrow> string \<Rightarrow> SFCBlock \<Rightarrow> error + SymbolInformation list" where
  "documentSymbols_of env u style =
     (let service = getLanguageService (lang_of style);
          document = \<lparr>uri = u, languageId = lang_of style, version = 0, getText = content style\<rparr>
      in case parseStylesheet env service document of
           Inl e \<Rightarrow> Inl e
         | Inr styleSheet \<Rightarrow> findDocumentSymbols env service document styleSheet)"

text \<open>
  \<open>sym.name.slice(0, 1) === '.' ? sym.name.slice(1) : null\<close>; \<open>None\<close> is \<open>null\<close>.
\<close>

definition className_of :: "SymbolInformation \<Rightarrow> string option" where
  "className_of symbol = (if take 1 (name symbol) = ''.'' then Some (drop 1 (name symbol)) else None)"

text \<open>
  The body of the inner loop, lines 170 to 185. \<open>!className\<close> holds for \<open>null\<close> and for
  the empty string; \<open>!compItemMap.get(className)\<close> holds when the key is absent (a stored
  item is an object, never falsy).
\<close>

definition symbol_body :: "SymbolInformation \<Rightarrow> (string \<times> CompletionItem) list \<Rightarrow> (string \<times> CompletionItem) list" where
  "symbol_body symbol m =
     (let isClassSymbol = (kind symbol = SymbolKind_Class) in
      case className_of symbol of
        None \<Rightarrow> m
      | Some className \<Rightarrow>
          if \<not> isClassSymbol \<or> className = [] then m
          else
            (let completionItem = \<lparr>label = className, itemKind = CompletionItemKind_Property\<rparr>
             in if map_get m className = None then map_set m className completionItem else m))"

fun symbol_loop :: "SymbolInformation list \<Rightarrow> (string \<times> CompletionItem) list \<Rightarrow> (string \<times> CompletionItem) list" where
  "symbol_loop [] m = m"
| "symbol_loop (symbol # symbols) m = symbol_loop symbols (symbol_body symbol m)"

text \<open>
  The outer loop, lines 154 to 190. The list is published inside the loop, after each
  module block; a block that is not a module block is skipped before that.
\<close>

fun style_loop :: "'ss services \<Rightarrow> string \<Rightarrow> SFCBlock list \<Rightarrow> server_state \<Rightarrow> (error + unit) \<times> server_state" where
  "style_loop env u [] s = (Inr (), s)"
| "style_loop env u (style # rest) s =
     (if \<not> isModule style then style_loop env u rest s
      else
        (case documentSymbols_of env u style of
           Inl e \<Rightarrow> (Inl e, s)
         | Inr documentSymbols \<Rightarrow>
             (let m = symbol_loop documentSymbols (compItemMap s)
              in style_loop env u rest (s\<lparr>compItemMap := m, completionItems := map_values m\<rparr>))))"

text \<open>
  \<open>validateTextDocument\<close>: the result is the outcome (\<open>Inl\<close> when the promise is
  rejected) and the state the module-level variables are left in either way.
\<close>

definition validateTextDocument :: "'ss services \<Rightarrow> TextDocument \<Rightarrow> server_state \<Rightarrow> (error + unit) \<times> server_state" where
  "validateTextDocument env textDocument s =
     (let s0 = s\<lparr>compItemMap := [], completionItems := []\<rparr>;
          filename = filename_of (uri textDocument)
      in case VueParser env (getText textDocument) filename of
           Inl e \<Rightarrow> (Inl e, s0)
         | Inr parser \<Rightarrow>
             (let styles = (case getStyles parser of None \<Rightarrow> [] | Some blocks \<Rightarrow> blocks)
              in style_loop env (uri textDocument) styles s0))"

text \<open>
  \<open>documents.onDidChangeContent\<close> calls the rebuild and drops its promise: a rejection
  does not reach the handler, the state stays as the rebuild left it.
\<close>

definition onDidChangeContent :: "'ss services \<Rightarrow> TextDocument \<Rightarrow> server_state \<Rightarrow> server_state" where
  "onDidChangeContent env document s = snd (validateTextDocument env document s)"

record Position =
  line :: nat
  character :: nat

record TextDocumentPositionParams =
  textDocument :: string
  position :: Position

definition onCompletion :: "TextDocumentPositionParams \<Rightarrow> server_state \<Rightarrow> CompletionItem list" where
  "onCompletion textDocumentPosition s = completionItems s"

section \<open>Reference functions for the statements\<close>

text \<open>
  These are not code of the repository: they name what the theorems compare the loops with.
  \<open>item_for\<close> is the object literal of lines 178 to 181 for a given label.
\<close>

definition item_for :: "string \<Rightarrow> CompletionItem" where
  "item_for l = \<lparr>label = l, itemKind = CompletionItemKind_Property\<rparr>"

text \<open>
  The bare identifiers of the symbols of a list that pass the guard of line 174, in the
  order of the symbols, duplicates kept.
\<close>

definition admitted_names :: "SymbolInformation list \<Rightarrow> string list" where
  "admitted_names symbols =
     map (\<lambda>sy. drop 1 (name sy))
       (filter (\<lambda>sy. kind sy = SymbolKind_Class \<and> take 1 (name sy) = ''.'' \<and> drop 1 (name sy) \<noteq> [])
          symbols)"

text \<open>Of equal entries the first is kept, every later one dropped.\<close>

fun first_wins :: "string list \<Rightarrow> string list" where
  "first_wins [] = []"
| "first_wins (x # xs) = x # first_wins (removeAll x xs)"

text \<open>The symbols the services report for the module blocks, block after block.\<close>

definition module_symbols :: "'ss services \<Rightarrow> string \<Rightarrow> SFCBlock list \<Rightarrow> SymbolInformation list" where
  "module_symbols env u blocks =
     concat (map (\<lambda>b. case documentSymbols_of env u b of Inl e \<Rightarrow> [] | Inr symbols \<Rightarrow> symbols)
       (filter isModule blocks))"

text \<open>The blocks before the first module block at which a service throws.\<close>

definition processed :: "'ss services \<Rightarrow> string \<Rightarrow> SFCBlock list \<Rightarrow> SFCBlock list" where
  "processed env u blocks =
     takeWhile (\<lambda>b. \<not> (isModule b \<and> isl (documentSymbols_of env u b))) blocks"

section \<open>Concrete libraries for the examples\<close>

text \<open>
  A toy stylesheet service: one symbol per word of the block's content, of kind Class
  unless the word starts with an at sign (the real service reports every selector of a
  rule set as a Class symbol, whatever its first character). The toy parser returns the
  given blocks; each throws on the text \<open>malformed\<close>.
\<close>

definition fixture_symbols :: "string \<Rightarrow> SymbolInformation list" where
  "fixture_symbols txt =
     map (\<lambda>w. \<lparr>name = w, kind = (if take 1 w = ''@'' then 6 else SymbolKind_Class)\<rparr>)
       (split_on CHR '' '' txt)"

definition fixture_services :: "SFCBlock list \<Rightarrow> unit services" where
  "fixture_services blocks =
     \<lparr>parse = (\<lambda>source filename.
         if source = ''malformed'' then Inl (Thrown ''sfc'') else Inr \<lparr>styles = blocks\<rparr>),
      parseStylesheet = (\<lambda>service document.
         if getText document = ''malformed'' then Inl (Thrown ''css'') else Inr ()),
      findDocumentSymbols = (\<lambda>service document sheet. Inr (fixture_symbols (getText document)))\<rparr>"

definition fixture_document :: "string \<Rightarrow> TextDocument" where
  "fixture_document source =
     \<lparr>uri = ''file:///src/App.vue'', languageId = ''vue'', version = 1, getText = source\<rparr>"

definition module_block :: "string \<Rightarrow> SFCBlock" where
  "module_block css = \<lparr>content = css, lang = None, module = ModuleFlag True\<rparr>"

definition plain_block :: "string \<Rightarrow> SFCBlock" where
  "plain_block css = \<lparr>content = css, lang = None, module = NoModule\<rparr>"

text \<open>
  A second toy library whose stylesheet remembers the service that parsed it, and whose
  only symbol tells which one it was. Its parser returns one module block of language scss.
\<close>

definition probe_services :: "LanguageService services" where
  "probe_services =
     \<lparr>parse = (\<lambda>source filename.
         Inr \<lparr>styles = [\<lparr>content = source, lang = Some ''scss'', module = ModuleFlag True\<rparr>]\<rparr>),
      parseStylesheet = (\<lambda>service document. Inr service),
      findDocumentSymbols = (\<lambda>service document sheet.
         Inr [\<lparr>name = (case sheet of
                         CSSLanguageService \<Rightarrow> ''.parsed-as-css''
                       | SCSSLanguageService \<Rightarrow> ''.parsed-as-scss''
                       | LESSLanguageService \<Rightarrow> ''.parsed-as-less''),
               kind = SymbolKind_Class\<rparr>])\<rparr>"

section \<open>The loops in closed form\<close>

lemma map_get_None: "map_get m k = None \<longleftrightarrow> k \<notin> fst ` set m"
  by (simp add: map_get_def map_of_eq_None_iff)

lemma map_set_absent: "k \<notin> fst ` set m \<Longrightarrow> map_set m k v = m @ [(k, v)]"
  by (induction m) auto

lemma symbol_body_eq:
  "symbol_body symbol m =
     (if kind symbol = SymbolKind_Class \<and> take 1 (name symbol) = ''.'' \<and> drop 1 (name symbol) \<noteq> []
      then (if drop 1 (name symbol) \<in> fst ` set m then m
            else m @ [(drop 1 (name symbol), item_for (drop 1 (name symbol)))])
      else m)"
  by (simp add: symbol_body_def className_of_def item_for_def Let_def map_get_None map_set_absent)

lemma removeAll_filter: "removeAll x (filter P xs) = filter (\<lambda>y. P y \<and> y \<noteq> x) xs"
  by (induction xs) auto

lemma symbol_loop_eq:
  "symbol_loop symbols m =
     m @ map (\<lambda>l. (l, item_for l)) (first_wins (filter (\<lambda>l. l \<notin> fst ` set m) (admitted_names symbols)))"
proof (induction symbols arbitrary: m)
  case Nil
  show ?case by (simp add: admitted_names_def)
next
  case (Cons sy symbols)
  let ?ok = "kind sy = SymbolKind_Class \<and> take 1 (name sy) = ''.'' \<and> drop 1 (name sy) \<noteq> []"
  let ?l = "drop 1 (name sy)"
  show ?case
  proof (cases ?ok)
    case False
    then have "symbol_body sy m = m" "admitted_names (sy # symbols) = admitted_names symbols"
      by (auto simp: symbol_body_eq admitted_names_def)
    then show ?thesis using Cons.IH [of m] by simp
  next
    case True
    then have names: "admitted_names (sy # symbols) = ?l # admitted_names symbols"
      by (simp add: admitted_names_def)
    show ?thesis
    proof (cases "?l \<in> fst ` set m")
      case True
      with \<open>?ok\<close> have "symbol_body sy m = m" by (simp add: symbol_body_eq)
      then show ?thesis using Cons.IH [of m] True names by simp
    next
      case False
      with \<open>?ok\<close> have step: "symbol_body sy m = m @ [(?l, item_for ?l)]"
        by (simp add: symbol_body_eq)
      have "filter (\<lambda>l. l \<notin> fst ` set (m @ [(?l, item_for ?l)])) (admitted_names symbols)
            = removeAll ?l (filter (\<lambda>l. l \<notin> fst ` set m) (admitted_names symbols))"
        by (auto simp: removeAll_filter intro: filter_cong)
      then show ?thesis using Cons.IH [of "m @ [(?l, item_for ?l)]"] False names step by simp
    qed
  qed
qed

lemma symbol_loop_append: "symbol_loop (xs @ ys) m = symbol_loop ys (symbol_loop xs m)"
  by (induction xs arbitrary: m) auto


lemma first_wins_set: "set (first_wins xs) = set xs"
  by (induction xs rule: first_wins.induct) auto

lemma first_wins_distinct: "distinct (first_wins xs)"
  by (induction xs rule: first_wins.induct) (auto simp: first_wins_set)

lemma admitted_names_nonempty: "l \<in> set (admitted_names symbols) \<Longrightarrow> l \<noteq> []"
  by (auto simp: admitted_names_def)

lemma style_loop_fst: "fst (style_loop env u blocks s) = fst (style_loop env u blocks t)"
  by (induction blocks arbitrary: s t) (auto split: sum.splits simp: Let_def)

lemma style_loop_snd:
  "snd (style_loop env u blocks s) =
     (if filter isModule (processed env u blocks) = [] then s
      else s\<lparr>compItemMap := symbol_loop (module_symbols env u (processed env u blocks)) (compItemMap s),
             completionItems := map_values (symbol_loop (module_symbols env u (processed env u blocks)) (compItemMap s))\<rparr>)"
proof (induction blocks arbitrary: s)
  case Nil
  show ?case by (simp add: processed_def)
next
  case (Cons b blocks)
  show ?case
  proof (cases "isModule b")
    case False
    then show ?thesis using Cons.IH [of s] by (simp add: processed_def module_symbols_def)
  next
    case True
    show ?thesis
    proof (cases "documentSymbols_of env u b")
      case (Inl e)
      with True show ?thesis by (simp add: processed_def)
    next
      case (Inr symbols)
      let ?m = "symbol_loop symbols (compItemMap s)"
      let ?s1 = "s\<lparr>compItemMap := ?m, completionItems := map_values ?m\<rparr>"
      have head: "processed env u (b # blocks) = b # processed env u blocks"
        using True Inr by (simp add: processed_def)
      have syms: "module_symbols env u (b # processed env u blocks) = symbols @ module_symbols env u (processed env u blocks)"
        using True Inr by (simp add: module_symbols_def)
      have none: "filter isModule (processed env u blocks) = [] \<Longrightarrow> module_symbols env u (processed env u blocks) = []"
        by (simp add: module_symbols_def)
      have "snd (style_loop env u (b # blocks) s) = snd (style_loop env u blocks ?s1)"
        using True Inr by (simp add: Let_def)
      then show ?thesis
        using Cons.IH [of ?s1] True none by (simp add: head syms symbol_loop_append)
    qed
  qed
qed

lemma processed_all:
  "\<forall>b\<in>set blocks. isModule b \<longrightarrow> \<not> isl (documentSymbols_of env u b) \<Longrightarrow> processed env u blocks = blocks"
  by (auto simp: processed_def)

lemma style_loop_ok:
  "fst (style_loop env u blocks s) = Inr () \<longleftrightarrow> (\<forall>b\<in>set blocks. isModule b \<longrightarrow> \<not> isl (documentSymbols_of env u b))"
  by (induction blocks arbitrary: s) (auto split: sum.splits simp: Let_def)

lemma style_loop_append:
  "style_loop env u (xs @ ys) s =
     (case fst (style_loop env u xs s) of
        Inl e \<Rightarrow> style_loop env u xs s
      | Inr _ \<Rightarrow> style_loop env u ys (snd (style_loop env u xs s)))"
  by (induction xs arbitrary: s) (auto split: sum.splits simp: Let_def)


lemma validate_snd:
  "snd (validateTextDocument env doc s) =
     (case VueParser env (getText doc) (filename_of (uri doc)) of
        Inl e \<Rightarrow> s\<lparr>compItemMap := [], completionItems := []\<rparr>
      | Inr d \<Rightarrow>
          s\<lparr>compItemMap := symbol_loop (module_symbols env (uri doc)
                 (processed env (uri doc) (case getStyles d of None \<Rightarrow> [] | Some bs \<Rightarrow> bs))) [],
            completionItems := map_values (symbol_loop (module_symbols env (uri doc)
                 (processed env (uri doc) (case getStyles d of None \<Rightarrow> [] | Some bs \<Rightarrow> bs))) [])\<rparr>)"
proof (cases "VueParser env (getText doc) (filename_of (uri doc))")
  case (Inl e)
  then show ?thesis by (simp add: validateTextDocument_def)
next
  case (Inr d)
  let ?bs = "case getStyles d of None \<Rightarrow> [] | Some bs \<Rightarrow> bs"
  have none: "filter isModule (processed env (uri doc) ?bs) = [] \<Longrightarrow>
              module_symbols env (uri doc) (processed env (uri doc) ?bs) = []"
    by (simp add: module_symbols_def)
  have "snd (validateTextDocument env doc s) =
        snd (style_loop env (uri doc) ?bs (s\<lparr>compItemMap := [], completionItems := []\<rparr>))"
    using Inr by (simp add: validateTextDocument_def)
  then show ?thesis using Inr none
    by (simp add: style_loop_snd map_values_def)
qed

lemma validate_fst: "fst (validateTextDocument env doc s) = fst (validateTextDocument env doc t)"
  by (auto simp: validateTextDocument_def Let_def split: sum.splits intro: style_loop_fst)

lemma symbol_loop_from_empty:
  "symbol_loop symbols [] = map (\<lambda>l. (l, item_for l)) (first_wins (admitted_names symbols))"
  by (simp add: symbol_loop_eq)

lemma labels_of_loop:
  "map label (map_values (symbol_loop symbols [])) = first_wins (admitted_names symbols)"
  by (simp add: symbol_loop_from_empty map_values_def item_for_def comp_def)

lemma validate_ok_processed:
  assumes "VueParser env (getText doc) (filename_of (uri doc)) = Inr d"
    and "fst (validateTextDocument env doc s) = Inr ()"
  shows "processed env (uri doc) (case getStyles d of None \<Rightarrow> [] | Some bs \<Rightarrow> bs)
           = (case getStyles d of None \<Rightarrow> [] | Some bs \<Rightarrow> bs)"
proof -
  have "fst (style_loop env (uri doc) (case getStyles d of None \<Rightarrow> [] | Some bs \<Rightarrow> bs)
          (s\<lparr>compItemMap := [], completionItems := []\<rparr>)) = Inr ()"
    using assms by (simp add: validateTextDocument_def)
  then show ?thesis
    by (simp only: style_loop_ok processed_all)
qed

lemma validate_labels:
  "map label (completionItems (snd (validateTextDocument env doc s))) =
     (case VueParser env (getText doc) (filename_of (uri doc)) of
        Inl e \<Rightarrow> []
      | Inr d \<Rightarrow> first_wins (admitted_names (module_symbols env (uri doc)
                  (processed env (uri doc) (case getStyles d of None \<Rightarrow> [] | Some bs \<Rightarrow> bs)))))"
  by (simp add: validate_snd labels_of_loop split: sum.splits)

lemma admitted_names_set:
  "set (admitted_names symbols) =
     {drop 1 (name sy) |sy. sy \<in> set symbols \<and> kind sy = SymbolKind_Class
        \<and> take 1 (name sy) = ''.'' \<and> 1 < length (name sy)}"
  by (auto simp: admitted_names_def)

lemma symbol_body_hash: "take 1 (name symbol) = ''#'' \<Longrightarrow> symbol_body symbol m = m"
  by (simp add: symbol_body_eq)

lemma symbol_loop_filter:
  "(\<And>sy. sy \<in> set symbols \<Longrightarrow> \<not> P sy \<Longrightarrow> symbol_body sy = (\<lambda>m. m)) \<Longrightarrow>
   symbol_loop (filter P symbols) m = symbol_loop symbols m"
  by (induction symbols arbitrary: m) auto

lemma style_loop_skip: "style_loop env u (filter isModule blocks) s = style_loop env u blocks s"
  by (induction blocks arbitrary: s) (auto split: sum.splits simp: Let_def)

lemma style_loop_no_module: "\<forall>b\<in>set blocks. \<not> isModule b \<Longrightarrow> style_loop env u blocks s = (Inr (), s)"
  by (induction blocks arbitrary: s) auto

lemma style_loop_throw:
  assumes "\<forall>x\<in>set pre. isModule x \<longrightarrow> \<not> isl (documentSymbols_of env u x)"
    and "isModule b" and "documentSymbols_of env u b = Inl e"
  shows "style_loop env u (pre @ b # post) s = (Inl e, snd (style_loop env u pre s))"
proof -
  have "fst (style_loop env u pre s) = Inr ()"
    using assms(1) by (simp only: style_loop_ok)
  then show ?thesis
    using assms(2,3) by (simp add: style_loop_append)
qed

lemma style_loop_cleared:
  assumes "\<forall>x\<in>set pre. isModule x \<longrightarrow> \<not> isl (documentSymbols_of env u x)"
  shows "snd (style_loop env u pre (s\<lparr>compItemMap := [], completionItems := []\<rparr>)) =
     s\<lparr>compItemMap := map (\<lambda>l. (l, item_for l)) (first_wins (admitted_names (module_symbols env u pre))),
       completionItems := map item_for (first_wins (admitted_names (module_symbols env u pre)))\<rparr>"
proof -
  have none: "filter isModule pre = [] \<Longrightarrow> module_symbols env u pre = []"
    by (simp add: module_symbols_def)
  show ?thesis
    using none by (simp add: style_loop_snd processed_all [OF assms] symbol_loop_from_empty
        map_values_def comp_def admitted_names_def)
qed

lemma validate_labels_nonempty:
  "it \<in> set (completionItems (snd (validateTextDocument env doc s))) \<Longrightarrow> label it \<noteq> []"
proof -
  assume "it \<in> set (completionItems (snd (validateTextDocument env doc s)))"
  then have "label it \<in> set (map label (completionItems (snd (validateTextDocument env doc s))))"
    by simp
  then show ?thesis
    by (auto simp: validate_labels first_wins_set split: sum.splits dest: admitted_names_nonempty)
qed

lemma run_labels_nonempty:
  "it \<in> set (completionItems (fold (onDidChangeContent env) docs initial_state)) \<Longrightarrow> label it \<noteq> []"
proof (induction docs rule: rev_induct)
  case Nil
  then show ?case by (simp add: initial_state_def)
next
  case (snoc doc docs)
  then show ?case by (simp add: onDidChangeContent_def validate_labels_nonempty)
qed

section \<open>Service selection\<close>

text \<open>
  Claim C1: the service that parses a module block is chosen by the block's language tag,
  scss giving the SCSS service and less the LESS service. The code compares the tag with
  the strings \<open>.scss\<close> and \<open>.less\<close>, which start with a dot, while line 161 passes the
  tag as the parser gives it, without one: the tags scss and less both select the plain
  CSS service. The last conjunct runs a whole rebuild on a module block of language scss
  with a library that reports which service parsed the block.
\<close>

theorem getLanguageService_bare_tags:
  "getLanguageService ''scss'' = CSSLanguageService
   \<and> getLanguageService ''less'' = CSSLanguageService
   \<and> getLanguageService ''.scss'' = SCSSLanguageService
   \<and> getLanguageService ''.less'' = LESSLanguageService
   \<and> map label (onCompletion p (onDidChangeContent probe_services (fixture_document ''.a { }'') initial_state))
       = [''parsed-as-css'']"
  by (simp add: getLanguageService_def onCompletion_def onDidChangeContent_def
      validateTextDocument_def VueParser_def getStyles_def probe_services_def fixture_document_def
      initial_state_def isModule_def documentSymbols_of_def lang_of_def symbol_body_def
      className_of_def map_get_def map_values_def Let_def)

section \<open>Admission of symbols\<close>

text \<open>
  Claim C2, amended: a symbol is admitted into the mapping if and only if its kind is
  Class, its raw name begins with a dot and the name has at least one more character; the
  key and the label stored are the raw name without its first character, and a name
  already in the mapping is not stored again. A symbol whose name begins with \<open>#\<close>
  leaves the mapping as it is, and removing every such symbol from the list the service
  reports changes nothing. The last conjunct gives the keys after the inner loop.
\<close>

theorem symbol_admission:
  "symbol_body symbol m =
     (if kind symbol = SymbolKind_Class \<and> take 1 (name symbol) = ''.'' \<and> 1 < length (name symbol)
      then (if drop 1 (name symbol) \<in> fst ` set m then m
            else m @ [(drop 1 (name symbol),
                       \<lparr>label = drop 1 (name symbol), itemKind = CompletionItemKind_Property\<rparr>)])
      else m)
   \<and> (take 1 (name symbol) = ''#'' \<longrightarrow> symbol_body symbol m = m)
   \<and> symbol_loop (filter (\<lambda>sy. take 1 (name sy) \<noteq> ''#'') symbols) m = symbol_loop symbols m
   \<and> fst ` set (symbol_loop symbols m) =
       fst ` set m \<union> {drop 1 (name sy) |sy. sy \<in> set symbols \<and> kind sy = SymbolKind_Class
                          \<and> take 1 (name sy) = ''.'' \<and> 1 < length (name sy)}"
proof (intro conjI)
  show "symbol_body symbol m =
     (if kind symbol = SymbolKind_Class \<and> take 1 (name symbol) = ''.'' \<and> 1 < length (name symbol)
      then (if drop 1 (name symbol) \<in> fst ` set m then m
            else m @ [(drop 1 (name symbol),
                       \<lparr>label = drop 1 (name symbol), itemKind = CompletionItemKind_Property\<rparr>)])
      else m)"
    by (simp add: symbol_body_eq item_for_def)
  show "take 1 (name symbol) = ''#'' \<longrightarrow> symbol_body symbol m = m"
    by (simp add: symbol_body_hash)
  show "symbol_loop (filter (\<lambda>sy. take 1 (name sy) \<noteq> ''#'') symbols) m = symbol_loop symbols m"
    by (rule symbol_loop_filter) (auto simp: symbol_body_hash)
  have "fst ` set (symbol_loop symbols m) = fst ` set m \<union> set (admitted_names symbols)"
    by (auto simp: symbol_loop_eq first_wins_set image_Un image_image)
  then show "fst ` set (symbol_loop symbols m) =
       fst ` set m \<union> {drop 1 (name sy) |sy. sy \<in> set symbols \<and> kind sy = SymbolKind_Class
                          \<and> take 1 (name sy) = ''.'' \<and> 1 < length (name sy)}"
    by (simp only: admitted_names_set)
qed

theorem symbol_admission_witness:
  "take 1 (name \<lparr>name = ''#bar'', kind = SymbolKind_Class\<rparr>) = ''#''
   \<and> symbol_body \<lparr>name = ''#bar'', kind = SymbolKind_Class\<rparr> [] = []
   \<and> symbol_body \<lparr>name = ''.foo'', kind = SymbolKind_Class\<rparr> [] = [(''foo'', item_for ''foo'')]"
  using symbol_admission [of "\<lparr>name = ''#bar'', kind = SymbolKind_Class\<rparr>" "[]" "[]"]
    symbol_admission [of "\<lparr>name = ''.foo'', kind = SymbolKind_Class\<rparr>" "[]" "[]"]
  by (simp add: item_for_def)

text \<open>
  Claim C2 as stated fails for the name that is the dot alone: the symbol is of kind
  Class and its name begins with a dot, and it is not admitted (\<open>className\<close> is the empty
  string, which \<open>!className\<close> rejects). A rebuild on a module block with that one symbol
  returns with the mapping and the list empty.
\<close>

theorem dot_only_symbol_counterexample:
  "kind \<lparr>name = ''.'', kind = SymbolKind_Class\<rparr> = SymbolKind_Class
   \<and> take 1 (name \<lparr>name = ''.'', kind = SymbolKind_Class\<rparr>) = ''.''
   \<and> symbol_body \<lparr>name = ''.'', kind = SymbolKind_Class\<rparr> [] = []
   \<and> fixture_symbols ''.'' = [\<lparr>name = ''.'', kind = SymbolKind_Class\<rparr>]
   \<and> validateTextDocument (fixture_services [module_block ''.''])
        (fixture_document ''component'') initial_state = (Inr (), initial_state)"
  by (simp add: symbol_body_def className_of_def validateTextDocument_def VueParser_def
      getStyles_def fixture_services_def fixture_document_def fixture_symbols_def module_block_def
      initial_state_def isModule_def documentSymbols_of_def lang_of_def map_values_def Let_def)

section \<open>Unique labels\<close>

text \<open>
  Claim C3: the labels of the published list are unique and the first symbol of a bare
  identifier wins. A symbol whose identifier is already a key leaves the mapping as it is;
  the labels published are pairwise distinct after every rebuild; and when the rebuild
  returns, the labels are the admitted identifiers of the module blocks' symbols, in block
  order then symbol order, each at the place of its first occurrence and once.
\<close>

theorem labels_unique_first_wins:
  "(drop 1 (name symbol) \<in> fst ` set m \<longrightarrow> symbol_body symbol m = m)
   \<and> distinct (map label (completionItems (snd (validateTextDocument env doc s))))
   \<and> (VueParser env (getText doc) (filename_of (uri doc)) = Inr d
        \<and> fst (validateTextDocument env doc s) = Inr ()
      \<longrightarrow> map label (completionItems (snd (validateTextDocument env doc s)))
            = first_wins (admitted_names (module_symbols env (uri doc)
                (case getStyles d of None \<Rightarrow> [] | Some bs \<Rightarrow> bs)))
          \<and> set (map label (completionItems (snd (validateTextDocument env doc s))))
            = set (admitted_names (module_symbols env (uri doc)
                (case getStyles d of None \<Rightarrow> [] | Some bs \<Rightarrow> bs))))"
proof (intro conjI impI)
  show "symbol_body symbol m = m" if "drop 1 (name symbol) \<in> fst ` set m"
    using that by (simp add: symbol_body_eq)
  show "distinct (map label (completionItems (snd (validateTextDocument env doc s))))"
    by (simp add: validate_labels first_wins_distinct split: sum.splits)
next
  assume ok: "VueParser env (getText doc) (filename_of (uri doc)) = Inr d
    \<and> fst (validateTextDocument env doc s) = Inr ()"
  have all: "processed env (uri doc) (case getStyles d of None \<Rightarrow> [] | Some bs \<Rightarrow> bs)
           = (case getStyles d of None \<Rightarrow> [] | Some bs \<Rightarrow> bs)"
    using validate_ok_processed [of env doc d s] ok by blast
  show labels: "map label (completionItems (snd (validateTextDocument env doc s)))
            = first_wins (admitted_names (module_symbols env (uri doc)
                (case getStyles d of None \<Rightarrow> [] | Some bs \<Rightarrow> bs)))"
    using ok all by (simp add: validate_labels)
  show "set (map label (completionItems (snd (validateTextDocument env doc s))))
            = set (admitted_names (module_symbols env (uri doc)
                (case getStyles d of None \<Rightarrow> [] | Some bs \<Rightarrow> bs)))"
    by (simp only: labels first_wins_set)
qed

lemma fixture_eval:
  "validateTextDocument (fixture_services [module_block ''.foo .bar .foo'', plain_block ''.plain'', module_block ''.bar .baz''])
     (fixture_document ''component'') initial_state
   = (Inr (), initial_state\<lparr>compItemMap := map (\<lambda>l. (l, item_for l)) [''foo'', ''bar'', ''baz''],
        completionItems := map item_for [''foo'', ''bar'', ''baz'']\<rparr>)"
  by (simp add: symbol_body_def className_of_def validateTextDocument_def VueParser_def
      getStyles_def fixture_services_def fixture_document_def fixture_symbols_def module_block_def plain_block_def
      initial_state_def isModule_def documentSymbols_of_def lang_of_def map_values_def map_get_def Let_def item_for_def
      SymbolKind_Class_def)

theorem labels_unique_first_wins_witness:
  "drop 1 (name \<lparr>name = ''.foo'', kind = SymbolKind_Class\<rparr>) \<in> fst ` set [(''foo'', item_for ''foo'')]
   \<and> symbol_body \<lparr>name = ''.foo'', kind = SymbolKind_Class\<rparr> [(''foo'', item_for ''foo'')] = [(''foo'', item_for ''foo'')]
   \<and> VueParser (fixture_services [module_block ''.foo .bar .foo'', plain_block ''.plain'', module_block ''.bar .baz''])
        (getText (fixture_document ''component'')) (filename_of (uri (fixture_document ''component'')))
       = Inr \<lparr>styles = [module_block ''.foo .bar .foo'', plain_block ''.plain'', module_block ''.bar .baz'']\<rparr>
   \<and> fst (validateTextDocument (fixture_services [module_block ''.foo .bar .foo'', plain_block ''.plain'', module_block ''.bar .baz''])
        (fixture_document ''component'') initial_state) = Inr ()
   \<and> map label (completionItems (snd (validateTextDocument
        (fixture_services [module_block ''.foo .bar .foo'', plain_block ''.plain'', module_block ''.bar .baz''])
        (fixture_document ''component'') initial_state))) = [''foo'', ''bar'', ''baz'']"
proof -
  let ?blocks = "[module_block ''.foo .bar .foo'', plain_block ''.plain'', module_block ''.bar .baz'']"
  have parsed: "VueParser (fixture_services ?blocks)
        (getText (fixture_document ''component'')) (filename_of (uri (fixture_document ''component'')))
       = Inr \<lparr>styles = ?blocks\<rparr>"
    by (simp add: VueParser_def fixture_services_def fixture_document_def)
  have member: "drop 1 (name \<lparr>name = ''.foo'', kind = SymbolKind_Class\<rparr>) \<in> fst ` set [(''foo'', item_for ''foo'')]"
    by simp
  have step: "symbol_body \<lparr>name = ''.foo'', kind = SymbolKind_Class\<rparr> [(''foo'', item_for ''foo'')]
       = [(''foo'', item_for ''foo'')]"
    by (simp add: symbol_body_eq)
  have returned: "fst (validateTextDocument (fixture_services ?blocks)
        (fixture_document ''component'') initial_state) = Inr ()"
    by (simp add: fixture_eval)
  have labels: "map label (completionItems (snd (validateTextDocument (fixture_services ?blocks)
        (fixture_document ''component'') initial_state))) = [''foo'', ''bar'', ''baz'']"
    by (simp add: fixture_eval item_for_def)
  from labels_unique_first_wins [where symbol = "\<lparr>name = ''.foo'', kind = SymbolKind_Class\<rparr>"
        and m = "[(''foo'', item_for ''foo'')]"
        and env = "fixture_services ?blocks"
        and doc = "fixture_document ''component''" and s = initial_state
        and d = "\<lparr>styles = ?blocks\<rparr>"]
    member step parsed returned labels
  show ?thesis by blast
qed

section \<open>Blocks that are not module blocks\<close>

text \<open>
  Claim C4: a style block that is not a module block contributes nothing, whatever its
  content: the loop skips it, so dropping all such blocks from the list gives the same
  result; and when every block of the document is such a block (or there is none), the
  rebuild returns with the mapping and the list empty, and a completion request gets the
  empty list.
\<close>

theorem non_module_blocks_contribute_nothing:
  "(\<not> isModule style \<longrightarrow> style_loop env u (style # rest) s = style_loop env u rest s)
   \<and> style_loop env u (filter isModule blocks) s = style_loop env u blocks s
   \<and> (VueParser env (getText doc) (filename_of (uri doc)) = Inr d
        \<and> (\<forall>b\<in>set (case getStyles d of None \<Rightarrow> [] | Some bs \<Rightarrow> bs). \<not> isModule b)
      \<longrightarrow> validateTextDocument env doc s = (Inr (), s\<lparr>compItemMap := [], completionItems := []\<rparr>)
          \<and> onCompletion p (onDidChangeContent env doc s) = [])"
  by (simp add: style_loop_skip style_loop_no_module validateTextDocument_def onCompletion_def
      onDidChangeContent_def)

theorem non_module_blocks_contribute_nothing_witness:
  "\<not> isModule (plain_block ''.foo #bar'')
   \<and> \<not> isModule (plain_block ''.baz'')
   \<and> VueParser (fixture_services [plain_block ''.foo #bar'', plain_block ''.baz''])
        (getText (fixture_document ''component'')) (filename_of (uri (fixture_document ''component'')))
       = Inr \<lparr>styles = [plain_block ''.foo #bar'', plain_block ''.baz'']\<rparr>
   \<and> validateTextDocument (fixture_services [plain_block ''.foo #bar'', plain_block ''.baz''])
        (fixture_document ''component'')
        (initial_state\<lparr>compItemMap := [(''old'', item_for ''old'')], completionItems := [item_for ''old'']\<rparr>)
       = (Inr (), initial_state)
   \<and> onCompletion \<lparr>textDocument = ''file:///src/App.vue'', position = \<lparr>line = 3, character = 7\<rparr>\<rparr>
        (onDidChangeContent (fixture_services [plain_block ''.foo #bar'', plain_block ''.baz''])
          (fixture_document ''component'')
          (initial_state\<lparr>compItemMap := [(''old'', item_for ''old'')], completionItems := [item_for ''old'']\<rparr>)) = []"
proof -
  let ?E = "fixture_services [plain_block ''.foo #bar'', plain_block ''.baz'']"
  let ?old = "initial_state\<lparr>compItemMap := [(''old'', item_for ''old'')], completionItems := [item_for ''old'']\<rparr>"
  let ?p = "\<lparr>textDocument = ''file:///src/App.vue'', position = \<lparr>line = 3, character = 7\<rparr>\<rparr>"
  have plain: "\<not> isModule (plain_block ''.foo #bar'')" "\<not> isModule (plain_block ''.baz'')"
    by (simp_all add: isModule_def plain_block_def)
  have parsed: "VueParser ?E (getText (fixture_document ''component''))
      (filename_of (uri (fixture_document ''component'')))
       = Inr \<lparr>styles = [plain_block ''.foo #bar'', plain_block ''.baz'']\<rparr>"
    by (simp add: VueParser_def fixture_services_def fixture_document_def)
  have none: "\<forall>b\<in>set (case getStyles \<lparr>styles = [plain_block ''.foo #bar'', plain_block ''.baz'']\<rparr>
      of None \<Rightarrow> [] | Some bs \<Rightarrow> bs). \<not> isModule b"
    using plain by (simp add: getStyles_def)
  have cleared: "?old\<lparr>compItemMap := [], completionItems := []\<rparr> = initial_state"
    by (simp add: initial_state_def)
  from non_module_blocks_contribute_nothing [where style = "plain_block ''.foo #bar''"
      and env = ?E and doc = "fixture_document ''component''"
      and d = "\<lparr>styles = [plain_block ''.foo #bar'', plain_block ''.baz'']\<rparr>"
      and s = ?old and p = ?p]
    parsed none
  have "validateTextDocument ?E (fixture_document ''component'') ?old
          = (Inr (), ?old\<lparr>compItemMap := [], completionItems := []\<rparr>)
        \<and> onCompletion ?p (onDidChangeContent ?E (fixture_document ''component'') ?old) = []"
    by blast
  with plain parsed cleared show ?thesis by simp
qed

section \<open>The completion request\<close>

text \<open>
  Claim C5: the completion handler returns the published list as it is, whatever the
  position and document of the request: the empty list before any change, and after a
  change the list the rebuild left, which is every value of the mapping.
\<close>

theorem onCompletion_published_list:
  "onCompletion p s = completionItems s
   \<and> onCompletion p s = onCompletion q s
   \<and> onCompletion p initial_state = []
   \<and> onCompletion p (onDidChangeContent env doc s) = completionItems (snd (validateTextDocument env doc s))
   \<and> onCompletion p (onDidChangeContent env doc s) = map_values (compItemMap (onDidChangeContent env doc s))"
  by (simp add: onCompletion_def onDidChangeContent_def initial_state_def validate_snd map_values_def split: sum.splits)

section \<open>A rebuild that throws\<close>

text \<open>
  Claim C6, amended: an error of the parser or of a stylesheet service is not caught in
  the rebuild, and the published list is not what it was before: the rebuild has cleared
  the mapping and the list on entry. After an error of the parser both are empty; after an
  error of a service at a module block they hold the items of the blocks before that
  block, and nothing of the previous rebuild.
\<close>

theorem failed_rebuild_state:
  "(VueParser env (getText doc) (filename_of (uri doc)) = Inl e \<longrightarrow>
      validateTextDocument env doc s = (Inl e, s\<lparr>compItemMap := [], completionItems := []\<rparr>))
   \<and> (VueParser env (getText doc) (filename_of (uri doc)) = Inr d
        \<and> (case getStyles d of None \<Rightarrow> [] | Some bs \<Rightarrow> bs) = pre @ b # post
        \<and> (\<forall>x\<in>set pre. isModule x \<longrightarrow> \<not> isl (documentSymbols_of env (uri doc) x))
        \<and> isModule b \<and> documentSymbols_of env (uri doc) b = Inl e
      \<longrightarrow> validateTextDocument env doc s =
            (Inl e,
             s\<lparr>compItemMap := map (\<lambda>l. (l, item_for l))
                  (first_wins (admitted_names (module_symbols env (uri doc) pre))),
               completionItems := map item_for
                  (first_wins (admitted_names (module_symbols env (uri doc) pre)))\<rparr>))"
proof (intro conjI impI)
  assume "VueParser env (getText doc) (filename_of (uri doc)) = Inl e"
  then show "validateTextDocument env doc s = (Inl e, s\<lparr>compItemMap := [], completionItems := []\<rparr>)"
    by (simp add: validateTextDocument_def)
next
  assume h: "VueParser env (getText doc) (filename_of (uri doc)) = Inr d
        \<and> (case getStyles d of None \<Rightarrow> [] | Some bs \<Rightarrow> bs) = pre @ b # post
        \<and> (\<forall>x\<in>set pre. isModule x \<longrightarrow> \<not> isl (documentSymbols_of env (uri doc) x))
        \<and> isModule b \<and> documentSymbols_of env (uri doc) b = Inl e"
  then have "validateTextDocument env doc s =
      style_loop env (uri doc) (pre @ b # post) (s\<lparr>compItemMap := [], completionItems := []\<rparr>)"
    by (simp add: validateTextDocument_def)
  also have "\<dots> = (Inl e, snd (style_loop env (uri doc) pre (s\<lparr>compItemMap := [], completionItems := []\<rparr>)))"
    using h by (intro style_loop_throw) simp_all
  finally show "validateTextDocument env doc s =
            (Inl e,
             s\<lparr>compItemMap := map (\<lambda>l. (l, item_for l))
                  (first_wins (admitted_names (module_symbols env (uri doc) pre))),
               completionItems := map item_for
                  (first_wins (admitted_names (module_symbols env (uri doc) pre)))\<rparr>)"
    using h by (simp add: style_loop_cleared)
qed

theorem failed_rebuild_state_witness:
  "VueParser (fixture_services [module_block ''.foo''])
      (getText (fixture_document ''malformed'')) (filename_of (uri (fixture_document ''malformed'')))
     = Inl (Thrown ''sfc'')
   \<and> validateTextDocument (fixture_services [module_block ''.foo''])
        (fixture_document ''malformed'')
        (initial_state\<lparr>compItemMap := [(''old'', item_for ''old'')], completionItems := [item_for ''old'']\<rparr>)
     = (Inl (Thrown ''sfc''), initial_state)
   \<and> VueParser
        (fixture_services [module_block ''.new .x'', plain_block ''.p'', module_block ''malformed'', module_block ''.late''])
        (getText (fixture_document ''component'')) (filename_of (uri (fixture_document ''component'')))
     = Inr \<lparr>styles = ([module_block ''.new .x'', plain_block ''.p''] @ module_block ''malformed'' # [module_block ''.late''])\<rparr>
   \<and> \<not> isl (documentSymbols_of
        (fixture_services [module_block ''.new .x'', plain_block ''.p'', module_block ''malformed'', module_block ''.late''])
        (uri (fixture_document ''component'')) (module_block ''.new .x''))
   \<and> \<not> isModule (plain_block ''.p'')
   \<and> isModule (module_block ''malformed'')
   \<and> documentSymbols_of
        (fixture_services [module_block ''.new .x'', plain_block ''.p'', module_block ''malformed'', module_block ''.late''])
        (uri (fixture_document ''component'')) (module_block ''malformed'') = Inl (Thrown ''css'')
   \<and> validateTextDocument
        (fixture_services [module_block ''.new .x'', plain_block ''.p'', module_block ''malformed'', module_block ''.late''])
        (fixture_document ''component'')
        (initial_state\<lparr>compItemMap := [(''old'', item_for ''old'')], completionItems := [item_for ''old'']\<rparr>)
     = (Inl (Thrown ''css''),
        initial_state\<lparr>compItemMap := [(''new'', item_for ''new''), (''x'', item_for ''x'')],
          completionItems := [item_for ''new'', item_for ''x'']\<rparr>)"
proof -
  let ?E1 = "fixture_services [module_block ''.foo'']"
  let ?E2 = "fixture_services [module_block ''.new .x'', plain_block ''.p'', module_block ''malformed'', module_block ''.late'']"
  let ?old = "initial_state\<lparr>compItemMap := [(''old'', item_for ''old'')], completionItems := [item_for ''old'']\<rparr>"
  let ?D = "fixture_document ''component''"
  have thrown: "VueParser ?E1 (getText (fixture_document ''malformed''))
      (filename_of (uri (fixture_document ''malformed''))) = Inl (Thrown ''sfc'')"
    by (simp add: VueParser_def fixture_services_def fixture_document_def)
  have cleared: "validateTextDocument ?E1 (fixture_document ''malformed'') ?old
      = (Inl (Thrown ''sfc''), initial_state)"
    by (simp add: validateTextDocument_def VueParser_def fixture_services_def fixture_document_def
        initial_state_def)
  have parsed: "VueParser ?E2 (getText ?D) (filename_of (uri ?D))
      = Inr \<lparr>styles = ([module_block ''.new .x'', plain_block ''.p''] @ module_block ''malformed'' # [module_block ''.late''])\<rparr>"
    by (simp add: VueParser_def fixture_services_def fixture_document_def)
  have first: "\<not> isl (documentSymbols_of ?E2 (uri ?D) (module_block ''.new .x''))"
    by (simp add: documentSymbols_of_def fixture_services_def module_block_def)
  have second: "\<not> isModule (plain_block ''.p'')"
    by (simp add: isModule_def plain_block_def)
  have third: "isModule (module_block ''malformed'')"
    by (simp add: isModule_def module_block_def)
  have throws: "documentSymbols_of ?E2 (uri ?D) (module_block ''malformed'') = Inl (Thrown ''css'')"
    by (simp add: documentSymbols_of_def fixture_services_def module_block_def)
  have blocks: "(case getStyles \<lparr>styles = ([module_block ''.new .x'', plain_block ''.p''] @ module_block ''malformed'' # [module_block ''.late''])\<rparr>
        of None \<Rightarrow> [] | Some bs \<Rightarrow> bs)
      = [module_block ''.new .x'', plain_block ''.p''] @ module_block ''malformed'' # [module_block ''.late'']"
    by (simp add: getStyles_def)
  have before: "\<forall>x\<in>set [module_block ''.new .x'', plain_block ''.p''].
      isModule x \<longrightarrow> \<not> isl (documentSymbols_of ?E2 (uri ?D) x)"
    using first second by simp
  have partial: "validateTextDocument ?E2 ?D ?old
      = (Inl (Thrown ''css''),
         initial_state\<lparr>compItemMap := [(''new'', item_for ''new''), (''x'', item_for ''x'')],
           completionItems := [item_for ''new'', item_for ''x'']\<rparr>)"
    by (simp add: symbol_body_def className_of_def validateTextDocument_def VueParser_def
        getStyles_def fixture_services_def fixture_document_def fixture_symbols_def module_block_def
        plain_block_def initial_state_def isModule_def documentSymbols_of_def lang_of_def
        map_values_def map_get_def Let_def item_for_def SymbolKind_Class_def)
  from failed_rebuild_state [where env = ?E1 and doc = "fixture_document ''malformed''"
      and e = "Thrown ''sfc''" and s = ?old]
    failed_rebuild_state [where env = ?E2 and doc = ?D and e = "Thrown ''css''" and s = ?old
      and d = "\<lparr>styles = ([module_block ''.new .x'', plain_block ''.p''] @ module_block ''malformed'' # [module_block ''.late''])\<rparr>"
      and pre = "[module_block ''.new .x'', plain_block ''.p'']" and b = "module_block ''malformed''"
      and post = "[module_block ''.late'']"]
    thrown cleared parsed first second third throws blocks before partial
  show ?thesis by blast
qed

text \<open>
  Claim C6 as stated fails: after a rebuild has published the item \<open>foo\<close>, a rebuild on a
  text the parser throws on ends with the error and leaves the published list empty.
\<close>

theorem failed_rebuild_counterexample:
  "completionItems (onDidChangeContent (fixture_services [module_block ''.foo''])
      (fixture_document ''component'') initial_state) = [item_for ''foo'']
   \<and> fst (validateTextDocument (fixture_services [module_block ''.foo''])
        (fixture_document ''malformed'')
        (onDidChangeContent (fixture_services [module_block ''.foo''])
           (fixture_document ''component'') initial_state)) = Inl (Thrown ''sfc'')
   \<and> completionItems (snd (validateTextDocument (fixture_services [module_block ''.foo''])
        (fixture_document ''malformed'')
        (onDidChangeContent (fixture_services [module_block ''.foo''])
           (fixture_document ''component'') initial_state))) = []"
  by (simp add: symbol_body_def className_of_def validateTextDocument_def VueParser_def onDidChangeContent_def
      getStyles_def fixture_services_def fixture_document_def fixture_symbols_def module_block_def
      initial_state_def isModule_def documentSymbols_of_def lang_of_def map_values_def map_get_def Let_def item_for_def
      SymbolKind_Class_def)

section \<open>The block extractor\<close>

text \<open>
  Claim C7: for every source text and filename the library parses, \<open>getStyles\<close> returns
  the descriptor's style blocks as they are, in their order, and never null: for a
  component without style blocks the result is the empty sequence.
\<close>

theorem getStyles_returns_sequence:
  "getStyles d = Some (styles d)
   \<and> getStyles d \<noteq> None
   \<and> getStyles \<lparr>styles = []\<rparr> = Some []
   \<and> (VueParser env source filename = Inr d \<longrightarrow>
        parse env source filename = Inr d \<and> getStyles d = Some (styles d))"
  by (simp add: getStyles_def VueParser_def)

theorem getStyles_returns_sequence_witness:
  "VueParser (fixture_services []) ''<template></template>'' ''App.vue'' = Inr \<lparr>styles = []\<rparr>
   \<and> getStyles \<lparr>styles = []\<rparr> = Some []
   \<and> VueParser (fixture_services [plain_block ''.a'', module_block ''.b'']) ''component'' ''App.vue''
       = Inr \<lparr>styles = [plain_block ''.a'', module_block ''.b'']\<rparr>
   \<and> getStyles \<lparr>styles = [plain_block ''.a'', module_block ''.b'']\<rparr>
       = Some [plain_block ''.a'', module_block ''.b'']"
proof -
  have none: "VueParser (fixture_services []) ''<template></template>'' ''App.vue'' = Inr \<lparr>styles = []\<rparr>"
    by (simp add: VueParser_def fixture_services_def)
  have two: "VueParser (fixture_services [plain_block ''.a'', module_block ''.b'']) ''component'' ''App.vue''
       = Inr \<lparr>styles = [plain_block ''.a'', module_block ''.b'']\<rparr>"
    by (simp add: VueParser_def fixture_services_def)
  from getStyles_returns_sequence [where env = "fixture_services []"
      and source = "''<template></template>''" and filename = "''App.vue''" and d = "\<lparr>styles = []\<rparr>"]
    getStyles_returns_sequence [where env = "fixture_services [plain_block ''.a'', module_block ''.b'']"
      and source = "''component''" and filename = "''App.vue''"
      and d = "\<lparr>styles = [plain_block ''.a'', module_block ''.b'']\<rparr>"]
    none two
  show ?thesis by simp
qed

section \<open>Clearing and publishing\<close>

text \<open>
  Claim C8: a rebuild starts from the cleared mapping, so its outcome, its mapping and its
  list are the same from every previous state (nothing of a previous rebuild survives),
  and afterwards the published list is the values of the mapping in insertion order.
\<close>

theorem rebuild_replaces_mapping_and_list:
  "validateTextDocument env doc s = validateTextDocument env doc (s\<lparr>compItemMap := [], completionItems := []\<rparr>)
   \<and> fst (validateTextDocument env doc s) = fst (validateTextDocument env doc t)
   \<and> compItemMap (snd (validateTextDocument env doc s)) = compItemMap (snd (validateTextDocument env doc t))
   \<and> completionItems (snd (validateTextDocument env doc s)) = completionItems (snd (validateTextDocument env doc t))
   \<and> completionItems (snd (validateTextDocument env doc s))
       = map_values (compItemMap (snd (validateTextDocument env doc s)))"
proof -
  have "fst (validateTextDocument env doc s) = fst (validateTextDocument env doc t)"
    by (rule validate_fst)
  moreover have "validateTextDocument env doc s
      = validateTextDocument env doc (s\<lparr>compItemMap := [], completionItems := []\<rparr>)"
    by (simp add: validateTextDocument_def)
  ultimately show ?thesis
    by (simp add: validate_snd map_values_def split: sum.splits)
qed

section \<open>The setting\<close>

text \<open>
  Claim C9, amended: the settings hold the one number \<open>maxNumberOfProblems\<close>; its default
  in the server is 1000 (100 is the default the extension's manifest declares), and the
  rebuild does not consult it: with any other settings the outcome, the list and the
  mapping are the same, and the rebuild leaves the settings as they are.
\<close>

theorem settings_not_consulted:
  "maxNumberOfProblems defaultSettings = 1000
   \<and> manifest_maxNumberOfProblems = 100
   \<and> globalSettings initial_state = defaultSettings
   \<and> fst (validateTextDocument env doc (s\<lparr>globalSettings := g\<rparr>)) = fst (validateTextDocument env doc s)
   \<and> completionItems (snd (validateTextDocument env doc (s\<lparr>globalSettings := g\<rparr>)))
       = completionItems (snd (validateTextDocument env doc s))
   \<and> compItemMap (snd (validateTextDocument env doc (s\<lparr>globalSettings := g\<rparr>)))
       = compItemMap (snd (validateTextDocument env doc s))
   \<and> globalSettings (snd (validateTextDocument env doc s)) = globalSettings s"
proof -
  have "fst (validateTextDocument env doc (s\<lparr>globalSettings := g\<rparr>)) = fst (validateTextDocument env doc s)"
    by (rule validate_fst)
  then show ?thesis
    by (simp add: defaultSettings_def manifest_maxNumberOfProblems_def initial_state_def validate_snd
        split: sum.splits)
qed

text \<open>Claim C9 as stated fails: the server's default is 1000, not 100.\<close>

theorem defaultSettings_counterexample:
  "maxNumberOfProblems defaultSettings = 1000 \<and> maxNumberOfProblems defaultSettings \<noteq> 100
   \<and> maxNumberOfProblems (globalSettings initial_state) \<noteq> 100"
  by (simp add: defaultSettings_def initial_state_def)

section \<open>Labels are not empty\<close>

text \<open>
  Claim C10: no published item has an empty label. It holds after every rebuild, from any
  state and whatever its outcome, and so for every completion request after any sequence
  of document changes; the Class symbol named by the dot alone gets the empty identifier
  and leaves the mapping as it is.
\<close>

theorem published_labels_nonempty:
  "(\<forall>it\<in>set (completionItems (snd (validateTextDocument env doc s))). label it \<noteq> [])
   \<and> (\<forall>it\<in>set (onCompletion p (fold (onDidChangeContent env) docs initial_state)). label it \<noteq> [])
   \<and> className_of \<lparr>name = ''.'', kind = SymbolKind_Class\<rparr> = Some []
   \<and> symbol_body \<lparr>name = ''.'', kind = SymbolKind_Class\<rparr> m = m"
  by (auto simp: validate_labels_nonempty run_labels_nonempty onCompletion_def className_of_def
      symbol_body_eq)

theorem published_labels_nonempty_witness:
  "fixture_symbols ''. .foo'' =
     [\<lparr>name = ''.'', kind = SymbolKind_Class\<rparr>, \<lparr>name = ''.foo'', kind = SymbolKind_Class\<rparr>]
   \<and> item_for ''foo'' \<in> set (completionItems (snd (validateTextDocument
        (fixture_services [module_block ''. .foo'']) (fixture_document ''component'') initial_state)))
   \<and> completionItems (snd (validateTextDocument
        (fixture_services [module_block ''. .foo'']) (fixture_document ''component'') initial_state))
       = [item_for ''foo'']
   \<and> label (item_for ''foo'') \<noteq> []"
proof -
  let ?E = "fixture_services [module_block ''. .foo'']"
  have symbols: "fixture_symbols ''. .foo'' =
     [\<lparr>name = ''.'', kind = SymbolKind_Class\<rparr>, \<lparr>name = ''.foo'', kind = SymbolKind_Class\<rparr>]"
    by (simp add: fixture_symbols_def)
  have published: "completionItems (snd (validateTextDocument ?E (fixture_document ''component'') initial_state))
       = [item_for ''foo'']"
    by (simp add: symbol_body_def className_of_def validateTextDocument_def VueParser_def
        getStyles_def fixture_services_def fixture_document_def fixture_symbols_def module_block_def
        initial_state_def isModule_def documentSymbols_of_def lang_of_def
        map_values_def map_get_def Let_def item_for_def SymbolKind_Class_def)
  then have member: "item_for ''foo'' \<in> set (completionItems (snd (validateTextDocument ?E
        (fixture_document ''component'') initial_state)))"
    by simp
  from published_labels_nonempty [where env = ?E and doc = "fixture_document ''component''"
      and s = initial_state]
    symbols published member
  show ?thesis by blast
qed

end
